theory Spec2Isabelle
  imports Complex_Main
begin

section \<open>Numbers and style texts\<close>

text \<open>
  The scripts compute with JavaScript numbers. Coordinates and sizes handed in by the
  browser are finite and are modelled as exact reals; the only operation of the scripts
  that can leave the finite numbers is the division by a dimension of the bounding
  rectangle, which is zero for a detached element. A JavaScript division never throws:
  it yields \<open>NaN\<close> or an infinity, and a later multiplication carries that on.
\<close>

datatype jsnum = Fin real | PosInf | NegInf | NaN

definition js_div :: "real \<Rightarrow> real \<Rightarrow> jsnum" where
  \<comment> \<open>\<open>a / b\<close> for finite operands; a zero divisor is the \<open>+0\<close> of a bounding rectangle.\<close>
  "js_div a b =
     (if b \<noteq> 0 then Fin (a / b)
      else if a = 0 then NaN
      else if 0 < a then PosInf else NegInf)"

fun js_mul :: "jsnum \<Rightarrow> real \<Rightarrow> jsnum" where
  "js_mul (Fin a) k = Fin (a * k)"
| "js_mul PosInf k = (if k = 0 then NaN else if 0 < k then PosInf else NegInf)"
| "js_mul NegInf k = (if k = 0 then NaN else if 0 < k then NegInf else PosInf)"
| "js_mul NaN k = NaN"

text \<open>
  A style property holds the text of its declaration. Two of the assigned texts are
  built from numbers: the template \<^verbatim>\<open>translate(${moveX}px, ${moveY}px)\<close> and the
  concatenation \<^verbatim>\<open>currentX + 'px'\<close>. They are kept structured, so that the numbers
  stay readable; every other text is a literal.
\<close>

datatype css_text =
    Text string
  | Translate_px jsnum jsnum
  | Px real

section \<open>Magnetic button (js/magnetic.js)\<close>

text \<open>
  \<open>getBoundingClientRect()\<close> is answered by the layout engine at the time of the
  event; the handler only reads \<open>left\<close>, \<open>top\<close>, \<open>width\<close> and \<open>height\<close> of it.
\<close>

record dom_rect =
  rect_left :: real
  rect_top :: real
  rect_width :: real
  rect_height :: real

record mouse_event =
  clientX :: real
  clientY :: real

text \<open>
  An element carries the two inline style properties the class writes; whatever else
  an element has (other styles, classes, attributes, children) is the extension part
  of the record. The document maps element identities to elements.
\<close>

record element =
  style_transform :: css_text
  style_transition :: css_text

text \<open>An element with one more property, used where an example needs one.\<close>

record laid_out = element +
  layout :: nat

type_synonym elem_id = nat

type_synonym 'a document = "elem_id \<Rightarrow> 'a element_scheme"

text \<open>
  The translation a transform text stands for, when it stands for one: the template with
  two finite numbers, and the literal the leave handler assigns. A template holding
  \<open>NaN\<close> or an infinity is not a translation.
\<close>

fun translation :: "css_text \<Rightarrow> (real \<times> real) option" where
  "translation (Translate_px (Fin x) (Fin y)) = Some (x, y)"
| "translation (Text t) = (if t = ''translate(0, 0)'' then Some (0, 0) else None)"
| "translation _ = None"

text \<open>
  Assigning to \<open>style.transform\<close> goes through the style object's setter, which parses
  the text and keeps the previous declaration when the text is not a value of the
  property. \<^verbatim>\<open>translate(Infinitypx, NaNpx)\<close> is not one, so that assignment changes
  nothing; the assignment itself never throws. Of the texts the two handlers assign, the
  values of the property are exactly those that stand for a translation.
\<close>

definition set_transform :: "css_text \<Rightarrow> 'a element_scheme \<Rightarrow> 'a element_scheme" where
  "set_transform v x = (if translation v = None then x else x\<lparr>style_transform := v\<rparr>)"

record magnetic_button =
  el :: elem_id
  strength :: real
  triggerArea :: real

definition MagneticButton :: "elem_id \<Rightarrow> magnetic_button" where
  "MagneticButton e = \<lparr>el = e, strength = 40, triggerArea = 200\<rparr>"

definition centerX :: "dom_rect \<Rightarrow> real" where
  "centerX rect = rect_left rect + rect_width rect / 2"

definition centerY :: "dom_rect \<Rightarrow> real" where
  "centerY rect = rect_top rect + rect_height rect / 2"

definition distX :: "dom_rect \<Rightarrow> mouse_event \<Rightarrow> real" where
  "distX rect e = clientX e - centerX rect"

definition distY :: "dom_rect \<Rightarrow> mouse_event \<Rightarrow> real" where
  "distY rect e = clientY e - centerY rect"

definition moveX :: "magnetic_button \<Rightarrow> dom_rect \<Rightarrow> mouse_event \<Rightarrow> jsnum" where
  "moveX b rect e = js_mul (js_div (distX rect e) (rect_width rect)) (strength b)"

definition moveY :: "magnetic_button \<Rightarrow> dom_rect \<Rightarrow> mouse_event \<Rightarrow> jsnum" where
  "moveY b rect e = js_mul (js_div (distY rect e) (rect_height rect)) (strength b)"

definition onMouseMove ::
  "magnetic_button \<Rightarrow> dom_rect \<Rightarrow> mouse_event \<Rightarrow> 'a document \<Rightarrow> 'a document" where
  "onMouseMove b rect e d =
     d(el b := (set_transform (Translate_px (moveX b rect e) (moveY b rect e)) (d (el b)))
        \<lparr>style_transition := Text ''transform 0.3s cubic-bezier(.7, 0, .3, 1)''\<rparr>)"

definition onMouseLeave :: "magnetic_button \<Rightarrow> 'a document \<Rightarrow> 'a document" where
  "onMouseLeave b d =
     d(el b := (set_transform (Text ''translate(0, 0)'') (d (el b)))
        \<lparr>style_transition := Text ''transform 0.7s cubic-bezier(.7, 0, .3, 1)''\<rparr>)"

subsection \<open>Reading the assigned texts\<close>

definition magnitude :: "css_text \<Rightarrow> real option" where
  "magnitude t = map_option (\<lambda>(x, y). sqrt (x\<^sup>2 + y\<^sup>2)) (translation t)"

text \<open>
  A transition text as the handlers write it is three parts separated by single blanks:
  the property, the duration in seconds (\<open>0.3s\<close>) and the timing function, which
  itself contains blanks.
\<close>

definition first_word :: "string \<Rightarrow> string" where
  "first_word t = takeWhile (\<lambda>c. c \<noteq> CHR '' '') t"

definition rest_words :: "string \<Rightarrow> string" where
  "rest_words t = drop 1 (dropWhile (\<lambda>c. c \<noteq> CHR '' '') t)"

definition digit :: "char \<Rightarrow> nat option" where
  "digit c =
     map_of [(CHR ''0'', 0), (CHR ''1'', 1), (CHR ''2'', 2), (CHR ''3'', 3), (CHR ''4'', 4),
             (CHR ''5'', 5), (CHR ''6'', 6), (CHR ''7'', 7), (CHR ''8'', 8), (CHR ''9'', 9)] c"

fun digits :: "string \<Rightarrow> nat \<Rightarrow> nat option" where
  "digits [] acc = Some acc"
| "digits (c # cs) acc = (case digit c of None \<Rightarrow> None | Some v \<Rightarrow> digits cs (10 * acc + v))"

definition seconds :: "string \<Rightarrow> real option" where
  "seconds t =
     (if t = [] \<or> last t \<noteq> CHR ''s'' then None
      else
        let num = butlast t;
            whole = takeWhile (\<lambda>c. c \<noteq> CHR ''.'') num;
            frac = drop 1 (dropWhile (\<lambda>c. c \<noteq> CHR ''.'') num)
        in case digits (whole @ frac) 0 of
             None \<Rightarrow> None
           | Some v \<Rightarrow> Some (real v / 10 ^ length frac))"

fun transition_property :: "css_text \<Rightarrow> string option" where
  "transition_property (Text t) = Some (first_word t)"
| "transition_property _ = None"

fun transition_duration :: "css_text \<Rightarrow> real option" where
  "transition_duration (Text t) = seconds (first_word (rest_words t))"
| "transition_duration _ = None"

fun transition_timing :: "css_text \<Rightarrow> string option" where
  "transition_timing (Text t) = Some (rest_words (rest_words t))"
| "transition_timing _ = None"

subsection \<open>The pointer and the element's bounds\<close>

definition inside :: "dom_rect \<Rightarrow> mouse_event \<Rightarrow> bool" where
  "inside rect e \<longleftrightarrow>
     rect_left rect < clientX e \<and> clientX e < rect_left rect + rect_width rect \<and>
     rect_top rect < clientY e \<and> clientY e < rect_top rect + rect_height rect"

definition pointer_distance :: "dom_rect \<Rightarrow> mouse_event \<Rightarrow> real" where
  "pointer_distance rect e = sqrt ((distX rect e)\<^sup>2 + (distY rect e)\<^sup>2)"

section \<open>Work row hover: the image follower (js/main.js, initWorkHover)\<close>

text \<open>
  \<open>hoverContainer\<close> is the floating preview; the script writes its inline \<open>left\<close>
  and \<open>top\<close> and its class list. \<open>hoverImg\<close> is the image inside; the script
  writes its \<open>src\<close>.
\<close>

record container =
  style_left :: css_text
  style_top :: css_text
  classList :: "string list"

text \<open>
  The closure of \<open>initWorkHover\<close>: its five local variables, the two elements it holds,
  and the number of \<open>animate\<close> callbacks handed to \<open>requestAnimationFrame\<close> that the
  browser has not run yet.
\<close>

record work_hover =
  mouseX :: real
  mouseY :: real
  currentX :: real
  currentY :: real
  animating :: bool
  hoverContainer :: container
  hoverImg_src :: string
  raf_pending :: nat

definition classList_add :: "string \<Rightarrow> string list \<Rightarrow> string list" where
  \<comment> \<open>\<open>classList.add\<close>: a token that is absent goes to the end\<close>
  "classList_add c cl = (if c \<in> set cl then cl else cl @ [c])"

definition initWorkHover :: "container option \<Rightarrow> string option \<Rightarrow> nat \<Rightarrow> work_hover option" where
  \<comment> \<open>the two \<open>getElementById\<close> results (\<open>None\<close> for \<open>null\<close>) and \<open>rows.length\<close>\<close>
  "initWorkHover c i rows_length =
     (case c of
        None \<Rightarrow> None
      | Some hc \<Rightarrow>
          (case i of
             None \<Rightarrow> None
           | Some src \<Rightarrow>
               if rows_length = 0 then None
               else Some \<lparr>mouseX = 0, mouseY = 0, currentX = 0, currentY = 0,
                          animating = False, hoverContainer = hc, hoverImg_src = src,
                          raf_pending = 0\<rparr>))"

definition animate :: "work_hover \<Rightarrow> work_hover" where
  "animate s =
     (if \<not> animating s then s
      else
        let cx = currentX s + (mouseX s - currentX s) * 0.1;
            cy = currentY s + (mouseY s - currentY s) * 0.1
        in s\<lparr>currentX := cx, currentY := cy,
              hoverContainer := (hoverContainer s)\<lparr>style_left := Px cx, style_top := Px cy\<rparr>,
              raf_pending := raf_pending s + 1\<rparr>)"

definition row_mouseenter :: "string option \<Rightarrow> work_hover \<Rightarrow> work_hover" where
  \<comment> \<open>the argument is \<open>row.getAttribute('data-img')\<close>, \<open>None\<close> when the attribute is absent\<close>
  "row_mouseenter imgSrc s =
     (case imgSrc of
        None \<Rightarrow> s
      | Some v \<Rightarrow>
          if v = [] then s
          else
            animate (s\<lparr>hoverImg_src := v,
                       hoverContainer :=
                         (hoverContainer s)\<lparr>classList := classList_add ''active'' (classList (hoverContainer s))\<rparr>,
                       animating := True\<rparr>))"

definition row_mousemove :: "mouse_event \<Rightarrow> work_hover \<Rightarrow> work_hover" where
  "row_mousemove e s = s\<lparr>mouseX := clientX e - 175, mouseY := clientY e - 200\<rparr>"

definition row_mouseleave :: "work_hover \<Rightarrow> work_hover" where
  "row_mouseleave s =
     s\<lparr>hoverContainer :=
         (hoverContainer s)\<lparr>classList := removeAll ''active'' (classList (hoverContainer s))\<rparr>,
       animating := False\<rparr>"

text \<open>
  A rendered frame runs the callbacks that were pending when it began; a callback
  requested while the frame runs waits for the next frame.
\<close>

definition frame :: "work_hover \<Rightarrow> work_hover" where
  "frame s = (animate ^^ raf_pending s) (s\<lparr>raf_pending := 0\<rparr>)"

datatype event =
    MouseEnter "string option"
  | MouseMove mouse_event
  | MouseLeave
  | Frame

fun step :: "event \<Rightarrow> work_hover \<Rightarrow> work_hover" where
  "step (MouseEnter imgSrc) s = row_mouseenter imgSrc s"
| "step (MouseMove e) s = row_mousemove e s"
| "step MouseLeave s = row_mouseleave s"
| "step Frame s = frame s"

definition run :: "event list \<Rightarrow> work_hover \<Rightarrow> work_hover" where
  "run evs s = fold step evs s"

definition truthy :: "string option \<Rightarrow> bool" where
  \<comment> \<open>the values \<open>if (imgSrc)\<close> lets through: \<open>null\<close> and the empty string are falsy\<close>
  "truthy a = (case a of None \<Rightarrow> False | Some v \<Rightarrow> v \<noteq> [])"

fun activates :: "event \<Rightarrow> bool" where
  "activates (MouseEnter imgSrc) = truthy imgSrc"
| "activates _ = False"

definition distance_to_target :: "work_hover \<Rightarrow> real" where
  "distance_to_target s = sqrt ((mouseX s - currentX s)\<^sup>2 + (mouseY s - currentY s)\<^sup>2)"

section \<open>Theorems: magnetic button\<close>

text \<open>
  C1. On every pointer-move the handler computes, per axis, the pointer coordinate minus
  the centre coordinate, divided by the element's dimension on that axis, times the
  strength 40, and assigns the pair as a translation. Where the dimensions are not zero
  this is a pair of finite numbers and it is the element's translation afterwards. For a
  200 by 200 element centred at (100, 100) and the pointer at (150, 100) the translation
  is exactly (10px, 0px).
\<close>

theorem onMouseMove_translation:
  "moveX (MagneticButton i) rect e =
     js_mul (js_div (clientX e - (rect_left rect + rect_width rect / 2)) (rect_width rect)) 40
   \<and> moveY (MagneticButton i) rect e =
     js_mul (js_div (clientY e - (rect_top rect + rect_height rect / 2)) (rect_height rect)) 40
   \<and> onMouseMove (MagneticButton i) rect e d i =
       (set_transform
          (Translate_px (moveX (MagneticButton i) rect e) (moveY (MagneticButton i) rect e)) (d i))
         \<lparr>style_transition := Text ''transform 0.3s cubic-bezier(.7, 0, .3, 1)''\<rparr>
   \<and> (rect_width rect \<noteq> 0 \<and> rect_height rect \<noteq> 0 \<longrightarrow>
        style_transform (onMouseMove (MagneticButton i) rect e d i) =
          Translate_px
            (Fin ((clientX e - (rect_left rect + rect_width rect / 2)) / rect_width rect * 40))
            (Fin ((clientY e - (rect_top rect + rect_height rect / 2)) / rect_height rect * 40))
      \<and> translation (style_transform (onMouseMove (MagneticButton i) rect e d i)) =
          Some ((clientX e - (rect_left rect + rect_width rect / 2)) / rect_width rect * 40,
                (clientY e - (rect_top rect + rect_height rect / 2)) / rect_height rect * 40))
   \<and> style_transform
         (onMouseMove (MagneticButton i)
            \<lparr>rect_left = 0, rect_top = 0, rect_width = 200, rect_height = 200\<rparr>
            \<lparr>clientX = 150, clientY = 100\<rparr> d i) =
       Translate_px (Fin 10) (Fin 0)"
  by (simp add: onMouseMove_def set_transform_def MagneticButton_def moveX_def moveY_def
      js_div_def distX_def distY_def centerX_def centerY_def)

theorem onMouseMove_translation_witness:
  "rect_width \<lparr>rect_left = 20, rect_top = 10, rect_width = 80, rect_height = 40\<rparr> \<noteq> 0
 \<and> rect_height \<lparr>rect_left = 20, rect_top = 10, rect_width = 80, rect_height = 40\<rparr> \<noteq> 0
 \<and> translation (style_transform
       (onMouseMove (MagneticButton 0)
          \<lparr>rect_left = 20, rect_top = 10, rect_width = 80, rect_height = 40\<rparr>
          \<lparr>clientX = 80, clientY = 20\<rparr>
          (\<lambda>_. \<lparr>style_transform = Text [], style_transition = Text []\<rparr>) 0)) =
     Some (10, - 10)"
proof -
  note t = onMouseMove_translation
    [of 0 "\<lparr>rect_left = 20, rect_top = 10, rect_width = 80, rect_height = 40\<rparr>"
        "\<lparr>clientX = 80, clientY = 20\<rparr>"
        "\<lambda>_. \<lparr>style_transform = Text [], style_transition = Text []\<rparr>"]
  from t [THEN conjunct2, THEN conjunct2, THEN conjunct2, THEN conjunct1]
  show ?thesis by simp
qed

text \<open>
  C9. The two handlers write the transform and the transition of their own element and
  nothing else: every other element of the document is as before, and so is every other
  property of the element itself.
\<close>

theorem magnetic_handlers_frame:
  "(\<forall>j. j \<noteq> el b \<longrightarrow> onMouseMove b rect e d j = d j \<and> onMouseLeave b d j = d j)
   \<and> element.more (onMouseMove b rect e d (el b)) = element.more (d (el b))
   \<and> element.more (onMouseLeave b d (el b)) = element.more (d (el b))
   \<and> (onMouseMove b rect e d (el b))
        \<lparr>style_transform := style_transform (d (el b)),
         style_transition := style_transition (d (el b))\<rparr> = d (el b)
   \<and> (onMouseLeave b d (el b))
        \<lparr>style_transform := style_transform (d (el b)),
         style_transition := style_transition (d (el b))\<rparr> = d (el b)"
  by (simp add: onMouseMove_def onMouseLeave_def set_transform_def)

theorem magnetic_handlers_frame_witness:
  "(1::nat) \<noteq> el (MagneticButton 0)
   \<and> onMouseMove (MagneticButton 0)
        \<lparr>rect_left = 0, rect_top = 0, rect_width = 200, rect_height = 200\<rparr>
        \<lparr>clientX = 150, clientY = 100\<rparr>
        (\<lambda>j. \<lparr>style_transform = Text [], style_transition = Text [], layout = j\<rparr>) 1
      = \<lparr>style_transform = Text [], style_transition = Text [], layout = 1\<rparr>
   \<and> onMouseLeave (MagneticButton 0)
        (\<lambda>j. \<lparr>style_transform = Text [], style_transition = Text [], layout = j\<rparr>) 1
      = \<lparr>style_transform = Text [], style_transition = Text [], layout = 1\<rparr>"
proof -
  have ne: "(1::nat) \<noteq> el (MagneticButton 0)"
    by (simp add: MagneticButton_def)
  from magnetic_handlers_frame
    [of "MagneticButton 0"
        "\<lparr>rect_left = 0, rect_top = 0, rect_width = 200, rect_height = 200\<rparr>"
        "\<lparr>clientX = 150, clientY = 100\<rparr>"
        "\<lambda>j. \<lparr>style_transform = Text [], style_transition = Text [], layout = j\<rparr>"]
  have "\<forall>j. j \<noteq> el (MagneticButton 0) \<longrightarrow>
          onMouseMove (MagneticButton 0)
            \<lparr>rect_left = 0, rect_top = 0, rect_width = 200, rect_height = 200\<rparr>
            \<lparr>clientX = 150, clientY = 100\<rparr>
            (\<lambda>j. \<lparr>style_transform = Text [], style_transition = Text [], layout = j\<rparr>) j
          = \<lparr>style_transform = Text [], style_transition = Text [], layout = j\<rparr>
        \<and> onMouseLeave (MagneticButton 0)
            (\<lambda>j. \<lparr>style_transform = Text [], style_transition = Text [], layout = j\<rparr>) j
          = \<lparr>style_transform = Text [], style_transition = Text [], layout = j\<rparr>"
    by blast
  with ne show ?thesis by blast
qed

text \<open>
  C4. Whatever the document was, a pointer-leave sets the element's translation to
  exactly (0, 0), with a transition of 0.7 seconds; a pointer-move sets a transition of
  0.3 seconds, which is shorter; both transitions are on the transform and use the same
  timing function \<open>cubic-bezier(.7, 0, .3, 1)\<close>.
\<close>

theorem leave_resets_slowly:
  "style_transform (onMouseLeave b d (el b)) = Text ''translate(0, 0)''
 \<and> translation (style_transform (onMouseLeave b d (el b))) = Some (0, 0)
 \<and> transition_duration (style_transition (onMouseLeave b d (el b))) = Some 0.7
 \<and> transition_duration (style_transition (onMouseMove b rect e d' (el b))) = Some 0.3
 \<and> (0.3::real) < 0.7
 \<and> transition_timing (style_transition (onMouseLeave b d (el b))) = Some ''cubic-bezier(.7, 0, .3, 1)''
 \<and> transition_timing (style_transition (onMouseMove b rect e d' (el b))) = Some ''cubic-bezier(.7, 0, .3, 1)''
 \<and> transition_property (style_transition (onMouseLeave b d (el b))) = Some ''transform''
 \<and> transition_property (style_transition (onMouseMove b rect e d' (el b))) = Some ''transform''"
  by (simp add: onMouseLeave_def onMouseMove_def set_transform_def seconds_def first_word_def
      rest_words_def digit_def Let_def)

lemma move_finite:
  assumes "rect_width rect \<noteq> 0" and "rect_height rect \<noteq> 0"
  shows "style_transform (onMouseMove (MagneticButton i) rect e d i) =
           Translate_px (Fin (distX rect e / rect_width rect * 40))
                        (Fin (distY rect e / rect_height rect * 40))"
  using assms
  by (simp add: onMouseMove_def set_transform_def MagneticButton_def moveX_def moveY_def
      js_div_def)

lemma magnitude_finite:
  assumes "rect_width rect \<noteq> 0" and "rect_height rect \<noteq> 0"
  shows "magnitude (style_transform (onMouseMove (MagneticButton i) rect e d i)) =
           Some (sqrt ((distX rect e / rect_width rect * 40)\<^sup>2 + (distY rect e / rect_height rect * 40)\<^sup>2))"
  by (simp add: move_finite [OF assms] magnitude_def)

lemma inside_dims:
  assumes "inside rect e"
  shows "0 < rect_width rect" and "0 < rect_height rect"
    and "\<bar>distX rect e\<bar> < rect_width rect / 2" and "\<bar>distY rect e\<bar> < rect_height rect / 2"
  using assms unfolding inside_def distX_def distY_def centerX_def centerY_def
  by linarith+

lemma ratio_bound:
  fixes a w :: real
  assumes "0 < w" and "\<bar>a\<bar> < w / 2"
  shows "(a / w * 40)\<^sup>2 < 400"
proof -
  have "\<bar>a / w\<bar> < 1 / 2"
    using assms by (simp add: field_simps)
  then have "\<bar>a / w\<bar>\<^sup>2 < (1 / 2)\<^sup>2"
    by (intro power_strict_mono) simp_all
  then have "(a / w)\<^sup>2 < 1 / 4"
    by (simp add: power2_eq_square)
  moreover have "(a / w * 40)\<^sup>2 = (a / w)\<^sup>2 * 1600"
    by (simp add: power_mult_distrib power_divide)
  ultimately show ?thesis by linarith
qed

lemma scaled_sqrt:
  fixes k :: real
  assumes "0 \<le> k"
  shows "sqrt ((k * a)\<^sup>2 + (k * b)\<^sup>2) = k * sqrt (a\<^sup>2 + b\<^sup>2)"
proof -
  have "(k * a)\<^sup>2 + (k * b)\<^sup>2 = k\<^sup>2 * (a\<^sup>2 + b\<^sup>2)"
    by (simp add: power_mult_distrib distrib_left)
  then show ?thesis using assms by (simp add: real_sqrt_mult)
qed

text \<open>
  C3 as stated fails: on an element 400 wide and 100 high, a pointer 40 below the centre
  is translated by 16, a pointer 100 to the right of the centre only by 10. Both pointers
  are strictly inside the bounds.
\<close>

theorem magnitude_not_monotone_counterexample:
  "inside \<lparr>rect_left = 0, rect_top = 0, rect_width = 400, rect_height = 100\<rparr>
          \<lparr>clientX = 200, clientY = 90\<rparr>
 \<and> inside \<lparr>rect_left = 0, rect_top = 0, rect_width = 400, rect_height = 100\<rparr>
          \<lparr>clientX = 300, clientY = 50\<rparr>
 \<and> pointer_distance \<lparr>rect_left = 0, rect_top = 0, rect_width = 400, rect_height = 100\<rparr>
          \<lparr>clientX = 200, clientY = 90\<rparr>
   < pointer_distance \<lparr>rect_left = 0, rect_top = 0, rect_width = 400, rect_height = 100\<rparr>
          \<lparr>clientX = 300, clientY = 50\<rparr>
 \<and> magnitude (style_transform (onMouseMove (MagneticButton 0)
        \<lparr>rect_left = 0, rect_top = 0, rect_width = 400, rect_height = 100\<rparr>
        \<lparr>clientX = 200, clientY = 90\<rparr>
        (\<lambda>_. \<lparr>style_transform = Text [], style_transition = Text []\<rparr>) 0)) = Some 16
 \<and> magnitude (style_transform (onMouseMove (MagneticButton 0)
        \<lparr>rect_left = 0, rect_top = 0, rect_width = 400, rect_height = 100\<rparr>
        \<lparr>clientX = 300, clientY = 50\<rparr>
        (\<lambda>_. \<lparr>style_transform = Text [], style_transition = Text []\<rparr>) 0)) = Some 10"
proof -
  have "sqrt 256 = 16" using real_sqrt_abs [of 16] by simp
  moreover have "sqrt 100 = 10" using real_sqrt_abs [of 10] by simp
  ultimately show ?thesis
    by (simp add: inside_def pointer_distance_def distX_def distY_def centerX_def centerY_def
        magnitude_def onMouseMove_def set_transform_def MagneticButton_def moveX_def moveY_def
        js_div_def)
qed

text \<open>
  C3, amended. For a pointer strictly inside the bounds the translation is finite, its
  magnitude is zero at the centre and never exceeds 40. On a square element the magnitude
  grows exactly with the pointer's distance from the centre. On any element it grows with
  the distance along each ray from the centre: a pointer \<open>t\<close> times as far in the same
  direction is translated \<open>t\<close> times as much.
\<close>

theorem magnitude_inside:
  assumes "inside rect e" and "inside rect e'"
  shows "\<exists>m m'.
      magnitude (style_transform (onMouseMove (MagneticButton i) rect e d i)) = Some m
    \<and> magnitude (style_transform (onMouseMove (MagneticButton i) rect e' d i)) = Some m'
    \<and> m \<le> 40
    \<and> (clientX e = centerX rect \<and> clientY e = centerY rect \<longrightarrow> m = 0)
    \<and> (rect_width rect = rect_height rect \<longrightarrow>
         (pointer_distance rect e \<le> pointer_distance rect e' \<longleftrightarrow> m \<le> m')
       \<and> (pointer_distance rect e < pointer_distance rect e' \<longleftrightarrow> m < m'))
    \<and> (\<forall>t. 0 \<le> t \<and> distX rect e' = t * distX rect e \<and> distY rect e' = t * distY rect e \<longrightarrow>
         m' = t * m
       \<and> (pointer_distance rect e \<le> pointer_distance rect e' \<longrightarrow> m \<le> m'))"
proof -
  let ?w = "rect_width rect" and ?h = "rect_height rect"
  let ?m = "sqrt ((distX rect e / ?w * 40)\<^sup>2 + (distY rect e / ?h * 40)\<^sup>2)"
  let ?m' = "sqrt ((distX rect e' / ?w * 40)\<^sup>2 + (distY rect e' / ?h * 40)\<^sup>2)"
  note dims = inside_dims [OF assms(1)]
  have w: "?w \<noteq> 0" and h: "?h \<noteq> 0" using dims by simp_all
  have m: "magnitude (style_transform (onMouseMove (MagneticButton i) rect e d i)) = Some ?m"
    by (rule magnitude_finite [OF w h])
  have m': "magnitude (style_transform (onMouseMove (MagneticButton i) rect e' d i)) = Some ?m'"
    by (rule magnitude_finite [OF w h])
  have bound: "?m \<le> 40"
  proof (rule real_le_lsqrt)
    show "(0::real) \<le> 40" by simp
    show "(distX rect e / ?w * 40)\<^sup>2 + (distY rect e / ?h * 40)\<^sup>2 \<le> 40\<^sup>2"
      using ratio_bound [OF dims(1) dims(3)] ratio_bound [OF dims(2) dims(4)] by simp
  qed
  have centre: "clientX e = centerX rect \<and> clientY e = centerY rect \<longrightarrow> ?m = 0"
    by (simp add: distX_def distY_def)
  have square: "?w = ?h \<longrightarrow>
         (pointer_distance rect e \<le> pointer_distance rect e' \<longleftrightarrow> ?m \<le> ?m')
       \<and> (pointer_distance rect e < pointer_distance rect e' \<longleftrightarrow> ?m < ?m')"
  proof
    assume eq: "?w = ?h"
    have k: "0 < 40 / ?w" using dims(1) by simp
    have "\<And>ev. sqrt ((distX rect ev / ?w * 40)\<^sup>2 + (distY rect ev / ?h * 40)\<^sup>2)
              = 40 / ?w * pointer_distance rect ev"
    proof -
      fix ev
      have "sqrt ((40 / ?w * distX rect ev)\<^sup>2 + (40 / ?w * distY rect ev)\<^sup>2)
              = 40 / ?w * sqrt ((distX rect ev)\<^sup>2 + (distY rect ev)\<^sup>2)"
        using k by (intro scaled_sqrt) simp
      then show "sqrt ((distX rect ev / ?w * 40)\<^sup>2 + (distY rect ev / ?h * 40)\<^sup>2)
              = 40 / ?w * pointer_distance rect ev"
        by (simp add: eq [symmetric] pointer_distance_def mult.commute)
    qed
    then have "?m = 40 / ?w * pointer_distance rect e"
      and "?m' = 40 / ?w * pointer_distance rect e'"
      by blast+
    then show "(pointer_distance rect e \<le> pointer_distance rect e' \<longleftrightarrow> ?m \<le> ?m')
       \<and> (pointer_distance rect e < pointer_distance rect e' \<longleftrightarrow> ?m < ?m')"
      using k by (simp only: mult_le_cancel_left_pos mult_less_cancel_left_pos)
  qed
  have ray: "\<forall>t. 0 \<le> t \<and> distX rect e' = t * distX rect e \<and> distY rect e' = t * distY rect e \<longrightarrow>
         ?m' = t * ?m \<and> (pointer_distance rect e \<le> pointer_distance rect e' \<longrightarrow> ?m \<le> ?m')"
  proof (intro allI impI)
    fix t :: real
    assume a: "0 \<le> t \<and> distX rect e' = t * distX rect e \<and> distY rect e' = t * distY rect e"
    have "sqrt ((t * (distX rect e / ?w * 40))\<^sup>2 + (t * (distY rect e / ?h * 40))\<^sup>2) = t * ?m"
      using a by (intro scaled_sqrt) simp
    then have tm: "?m' = t * ?m" using a by (simp add: mult.assoc)
    have pd: "pointer_distance rect e' = t * pointer_distance rect e"
      unfolding pointer_distance_def using a by (simp add: scaled_sqrt)
    have "pointer_distance rect e \<le> pointer_distance rect e' \<longrightarrow> ?m \<le> t * ?m"
    proof
      assume le: "pointer_distance rect e \<le> pointer_distance rect e'"
      show "?m \<le> t * ?m"
      proof (cases "pointer_distance rect e = 0")
        case True
        then have "distX rect e = 0" and "distY rect e = 0"
          by (simp_all add: pointer_distance_def sum_power2_eq_zero_iff)
        then show ?thesis by simp
      next
        case False
        then have "0 < pointer_distance rect e"
          by (simp add: pointer_distance_def less_le)
        with le pd have "1 \<le> t" by simp
        moreover have "0 \<le> ?m" by simp
        ultimately show ?thesis
          using mult_right_mono [of 1 t ?m] by simp
      qed
    qed
    with tm show "?m' = t * ?m \<and> (pointer_distance rect e \<le> pointer_distance rect e' \<longrightarrow> ?m \<le> ?m')"
      by simp
  qed
  from m m' bound centre square ray show ?thesis by blast
qed


theorem magnitude_inside_witness:
  "inside \<lparr>rect_left = 0, rect_top = 0, rect_width = 400, rect_height = 100\<rparr>
          \<lparr>clientX = 220, clientY = 60\<rparr>
 \<and> inside \<lparr>rect_left = 0, rect_top = 0, rect_width = 400, rect_height = 100\<rparr>
          \<lparr>clientX = 240, clientY = 70\<rparr>
 \<and> (\<exists>m m'.
      magnitude (style_transform (onMouseMove (MagneticButton 0)
        \<lparr>rect_left = 0, rect_top = 0, rect_width = 400, rect_height = 100\<rparr>
        \<lparr>clientX = 220, clientY = 60\<rparr>
        (\<lambda>_. \<lparr>style_transform = Text [], style_transition = Text []\<rparr>) 0)) = Some m
    \<and> magnitude (style_transform (onMouseMove (MagneticButton 0)
        \<lparr>rect_left = 0, rect_top = 0, rect_width = 400, rect_height = 100\<rparr>
        \<lparr>clientX = 240, clientY = 70\<rparr>
        (\<lambda>_. \<lparr>style_transform = Text [], style_transition = Text []\<rparr>) 0)) = Some m'
    \<and> m \<le> 40 \<and> m' = 2 * m)"
proof -
  let ?R = "\<lparr>rect_left = 0, rect_top = 0, rect_width = 400, rect_height = 100\<rparr>"
  let ?e = "\<lparr>clientX = 220, clientY = 60\<rparr>"
  let ?e' = "\<lparr>clientX = 240, clientY = 70\<rparr>"
  have i: "inside ?R ?e" and i': "inside ?R ?e'"
    by (simp_all add: inside_def)
  have ray: "(0::real) \<le> 2 \<and> distX ?R ?e' = 2 * distX ?R ?e \<and> distY ?R ?e' = 2 * distY ?R ?e"
    by (simp add: distX_def distY_def centerX_def centerY_def)
  from magnitude_inside [OF i i', of 0 "\<lambda>_. \<lparr>style_transform = Text [], style_transition = Text []\<rparr>"]
  obtain m m' where
    "magnitude (style_transform (onMouseMove (MagneticButton 0) ?R ?e
        (\<lambda>_. \<lparr>style_transform = Text [], style_transition = Text []\<rparr>) 0)) = Some m"
    "magnitude (style_transform (onMouseMove (MagneticButton 0) ?R ?e'
        (\<lambda>_. \<lparr>style_transform = Text [], style_transition = Text []\<rparr>) 0)) = Some m'"
    "m \<le> 40"
    "\<forall>t. 0 \<le> t \<and> distX ?R ?e' = t * distX ?R ?e \<and> distY ?R ?e' = t * distY ?R ?e \<longrightarrow>
         m' = t * m \<and> (pointer_distance ?R ?e \<le> pointer_distance ?R ?e' \<longrightarrow> m \<le> m')"
    by blast
  with ray have "m' = 2 * m" by blast
  with i i' \<open>magnitude _ = Some m\<close> \<open>magnitude _ = Some m'\<close> \<open>m \<le> 40\<close> show ?thesis by blast
qed

lemma move_not_finite:
  assumes "rect_width rect = 0 \<or> rect_height rect = 0"
  shows "translation (Translate_px (moveX (MagneticButton i) rect e) (moveY (MagneticButton i) rect e)) = None"
proof -
  have x: "rect_width rect = 0 \<Longrightarrow> \<forall>v. moveX (MagneticButton i) rect e \<noteq> Fin v"
    by (simp add: moveX_def MagneticButton_def js_div_def)
  have y: "rect_height rect = 0 \<Longrightarrow> \<forall>v. moveY (MagneticButton i) rect e \<noteq> Fin v"
    by (simp add: moveY_def MagneticButton_def js_div_def)
  show ?thesis
  proof (cases "moveX (MagneticButton i) rect e")
    case (Fin a)
    with x assms have h: "rect_height rect = 0" by auto
    show ?thesis
      using y [OF h] Fin by (cases "moveY (MagneticButton i) rect e") simp_all
  qed simp_all
qed

text \<open>
  C7 as stated fails in one respect: the handler is not without effect. With a
  rectangle of no size, a pointer-move on an element that a pointer-leave had reset keeps
  the transform, as the claim says, but replaces the 0.7s transition by the 0.3s one.
\<close>

theorem detached_move_counterexample:
  "rect_width \<lparr>rect_left = 0, rect_top = 0, rect_width = 0, rect_height = 0\<rparr> = 0
 \<and> rect_height \<lparr>rect_left = 0, rect_top = 0, rect_width = 0, rect_height = 0\<rparr> = 0
 \<and> onMouseMove (MagneticButton 0)
        \<lparr>rect_left = 0, rect_top = 0, rect_width = 0, rect_height = 0\<rparr>
        \<lparr>clientX = 5, clientY = 0\<rparr>
        (\<lambda>_. \<lparr>style_transform = Text ''translate(0, 0)'',
               style_transition = Text ''transform 0.7s cubic-bezier(.7, 0, .3, 1)''\<rparr>) 0
     = \<lparr>style_transform = Text ''translate(0, 0)'',
        style_transition = Text ''transform 0.3s cubic-bezier(.7, 0, .3, 1)''\<rparr>
 \<and> onMouseMove (MagneticButton 0)
        \<lparr>rect_left = 0, rect_top = 0, rect_width = 0, rect_height = 0\<rparr>
        \<lparr>clientX = 5, clientY = 0\<rparr>
        (\<lambda>_. \<lparr>style_transform = Text ''translate(0, 0)'',
               style_transition = Text ''transform 0.7s cubic-bezier(.7, 0, .3, 1)''\<rparr>) 0
     \<noteq> \<lparr>style_transform = Text ''translate(0, 0)'',
        style_transition = Text ''transform 0.7s cubic-bezier(.7, 0, .3, 1)''\<rparr>"
  by (simp add: onMouseMove_def set_transform_def MagneticButton_def moveX_def moveY_def
      js_div_def distX_def distY_def centerX_def centerY_def)

text \<open>
  C7, amended. For a bounding rectangle without size (width or height zero, as a
  detached element has) the handler returns normally and leaves the element's transform
  as it was, whatever it was: the quotient by the zero dimension is \<open>NaN\<close> or an
  infinity and the text built from it is not stored. The one effect of the event is that
  the element's transition is set to the 0.3s one; everything else in the document is
  unchanged.
\<close>

theorem detached_move:
  assumes "rect_width rect = 0 \<or> rect_height rect = 0"
  shows "style_transform (onMouseMove (MagneticButton i) rect e d i) = style_transform (d i)
       \<and> onMouseMove (MagneticButton i) rect e d =
           d(i := (d i)\<lparr>style_transition := Text ''transform 0.3s cubic-bezier(.7, 0, .3, 1)''\<rparr>)
       \<and> (rect_width rect = 0 \<longrightarrow> (\<forall>v. moveX (MagneticButton i) rect e \<noteq> Fin v))
       \<and> (rect_height rect = 0 \<longrightarrow> (\<forall>v. moveY (MagneticButton i) rect e \<noteq> Fin v))"
proof -
  have el: "el (MagneticButton i) = i" by (simp add: MagneticButton_def)
  have "onMouseMove (MagneticButton i) rect e d =
          d(i := (d i)\<lparr>style_transition := Text ''transform 0.3s cubic-bezier(.7, 0, .3, 1)''\<rparr>)"
    using move_not_finite [OF assms, of i e]
    by (simp add: onMouseMove_def set_transform_def el)
  moreover have "rect_width rect = 0 \<longrightarrow> (\<forall>v. moveX (MagneticButton i) rect e \<noteq> Fin v)"
    by (simp add: moveX_def MagneticButton_def js_div_def)
  moreover have "rect_height rect = 0 \<longrightarrow> (\<forall>v. moveY (MagneticButton i) rect e \<noteq> Fin v)"
    by (simp add: moveY_def MagneticButton_def js_div_def)
  ultimately show ?thesis by simp
qed

theorem detached_move_witness:
  "(rect_width \<lparr>rect_left = 0, rect_top = 0, rect_width = 0, rect_height = 0\<rparr> = 0
    \<or> rect_height \<lparr>rect_left = 0, rect_top = 0, rect_width = 0, rect_height = 0\<rparr> = 0)
 \<and> onMouseMove (MagneticButton 0)
        \<lparr>rect_left = 0, rect_top = 0, rect_width = 0, rect_height = 0\<rparr>
        \<lparr>clientX = 5, clientY = - 3\<rparr>
        (\<lambda>_. \<lparr>style_transform = Translate_px (Fin 10) (Fin 0),
               style_transition = Text ''transform 0.7s cubic-bezier(.7, 0, .3, 1)''\<rparr>) 0
     = \<lparr>style_transform = Translate_px (Fin 10) (Fin 0),
        style_transition = Text ''transform 0.3s cubic-bezier(.7, 0, .3, 1)''\<rparr>
 \<and> moveX (MagneticButton 0)
        \<lparr>rect_left = 0, rect_top = 0, rect_width = 0, rect_height = 0\<rparr>
        \<lparr>clientX = 5, clientY = - 3\<rparr> = PosInf
 \<and> moveY (MagneticButton 0)
        \<lparr>rect_left = 0, rect_top = 0, rect_width = 0, rect_height = 0\<rparr>
        \<lparr>clientX = 5, clientY = - 3\<rparr> = NegInf"
proof -
  have h: "rect_width \<lparr>rect_left = 0, rect_top = 0, rect_width = 0, rect_height = 0\<rparr> = 0
    \<or> rect_height \<lparr>rect_left = 0, rect_top = 0, rect_width = 0, rect_height = 0\<rparr> = 0"
    by simp
  have m: "moveX (MagneticButton 0)
        \<lparr>rect_left = 0, rect_top = 0, rect_width = 0, rect_height = 0\<rparr>
        \<lparr>clientX = 5, clientY = - 3\<rparr> = PosInf"
    "moveY (MagneticButton 0)
        \<lparr>rect_left = 0, rect_top = 0, rect_width = 0, rect_height = 0\<rparr>
        \<lparr>clientX = 5, clientY = - 3\<rparr> = NegInf"
    by (simp_all add: moveX_def moveY_def MagneticButton_def js_div_def distX_def distY_def
        centerX_def centerY_def)
  from detached_move [OF h, of 0 "\<lparr>clientX = 5, clientY = - 3\<rparr>"
      "\<lambda>_. \<lparr>style_transform = Translate_px (Fin 10) (Fin 0),
               style_transition = Text ''transform 0.7s cubic-bezier(.7, 0, .3, 1)''\<rparr>"]
  have "onMouseMove (MagneticButton 0)
        \<lparr>rect_left = 0, rect_top = 0, rect_width = 0, rect_height = 0\<rparr>
        \<lparr>clientX = 5, clientY = - 3\<rparr>
        (\<lambda>_. \<lparr>style_transform = Translate_px (Fin 10) (Fin 0),
               style_transition = Text ''transform 0.7s cubic-bezier(.7, 0, .3, 1)''\<rparr>) 0
     = \<lparr>style_transform = Translate_px (Fin 10) (Fin 0),
        style_transition = Text ''transform 0.3s cubic-bezier(.7, 0, .3, 1)''\<rparr>"
    by simp
  with h m show ?thesis by blast
qed

section \<open>Theorems: the follower's update\<close>

lemma animate_active:
  assumes "animating s"
  shows "animating (animate s)"
    and "mouseX (animate s) = mouseX s"
    and "mouseY (animate s) = mouseY s"
    and "mouseX (animate s) - currentX (animate s) = (1 - 0.1) * (mouseX s - currentX s)"
    and "mouseY (animate s) - currentY (animate s) = (1 - 0.1) * (mouseY s - currentY s)"
  using assms by (simp_all add: animate_def Let_def) argo+

lemma animate_funpow_active:
  assumes "animating s"
  shows "animating ((animate ^^ n) s)
       \<and> mouseX ((animate ^^ n) s) = mouseX s
       \<and> mouseY ((animate ^^ n) s) = mouseY s
       \<and> mouseX ((animate ^^ n) s) - currentX ((animate ^^ n) s) = (1 - 0.1) ^ n * (mouseX s - currentX s)
       \<and> mouseY ((animate ^^ n) s) - currentY ((animate ^^ n) s) = (1 - 0.1) ^ n * (mouseY s - currentY s)"
proof (induction n)
  case 0
  show ?case using assms by simp
next
  case (Suc n)
  let ?t = "(animate ^^ n) s"
  from Suc have a: "animating ?t" by simp
  show ?case
    using Suc animate_active [OF a] by (simp add: mult.assoc)
qed

lemma distance_scaled:
  fixes k :: real
  assumes "0 \<le> k"
    and "mouseX t - currentX t = k * (mouseX s - currentX s)"
    and "mouseY t - currentY t = k * (mouseY s - currentY s)"
  shows "distance_to_target t = k * distance_to_target s"
proof -
  have "(mouseX t - currentX t)\<^sup>2 + (mouseY t - currentY t)\<^sup>2 =
        k\<^sup>2 * ((mouseX s - currentX s)\<^sup>2 + (mouseY s - currentY s)\<^sup>2)"
    using assms(2,3) by (simp add: power_mult_distrib distrib_left)
  then show ?thesis
    using assms(1) by (simp add: distance_to_target_def real_sqrt_mult)
qed

lemma distance_zero_iff:
  "distance_to_target s = 0 \<longleftrightarrow> currentX s = mouseX s \<and> currentY s = mouseY s"
  by (auto simp: distance_to_target_def sum_power2_eq_zero_iff)

lemma distance_nonneg: "0 \<le> distance_to_target s"
  by (simp add: distance_to_target_def)

lemma distance_funpow:
  assumes "animating s"
  shows "distance_to_target ((animate ^^ n) s) = (1 - 0.1) ^ n * distance_to_target s"
  using animate_funpow_active [OF assms, of n]
  by (intro distance_scaled) simp_all

text \<open>
  C2. With the target fixed and the loop active, every tick on which the current
  position differs from the target brings it strictly closer; after \<open>n\<close> ticks the
  distance is at most \<open>(1 - 0.1) ^ n\<close> times the initial distance; and a position that
  differs from the target at the start differs from it after every finite number of ticks.
\<close>

theorem follower_converges_never_arrives:
  assumes "animating s"
  shows "((currentX ((animate ^^ n) s), currentY ((animate ^^ n) s)) \<noteq> (mouseX s, mouseY s) \<longrightarrow>
            distance_to_target ((animate ^^ Suc n) s) < distance_to_target ((animate ^^ n) s))
       \<and> distance_to_target ((animate ^^ n) s) \<le> (1 - 0.1) ^ n * distance_to_target s
       \<and> ((currentX s, currentY s) \<noteq> (mouseX s, mouseY s) \<longrightarrow>
            (currentX ((animate ^^ n) s), currentY ((animate ^^ n) s)) \<noteq> (mouseX s, mouseY s))"
proof (intro conjI impI)
  let ?t = "(animate ^^ n) s"
  have act: "animating ?t" and mx: "mouseX ?t = mouseX s" and my: "mouseY ?t = mouseY s"
    using animate_funpow_active [OF assms, of n] by simp_all
  have one: "distance_to_target (animate ?t) = (1 - 0.1) * distance_to_target ?t"
    using animate_active [OF act] by (intro distance_scaled) simp_all
  show "distance_to_target ?t \<le> (1 - 0.1) ^ n * distance_to_target s"
    using distance_funpow [OF assms, of n] by simp
  {
    assume "(currentX ?t, currentY ?t) \<noteq> (mouseX s, mouseY s)"
    then have "distance_to_target ?t \<noteq> 0"
      using mx my by (auto simp: distance_zero_iff)
    then have "0 < distance_to_target ?t"
      using distance_nonneg [of ?t] by simp
    then show "distance_to_target ((animate ^^ Suc n) s) < distance_to_target ?t"
      using one by simp
  }
  {
    assume "(currentX s, currentY s) \<noteq> (mouseX s, mouseY s)"
    then have "distance_to_target s \<noteq> 0"
      by (auto simp: distance_zero_iff)
    then have "distance_to_target ?t \<noteq> 0"
      using distance_funpow [OF assms, of n] by simp
    then show "(currentX ?t, currentY ?t) \<noteq> (mouseX s, mouseY s)"
      using mx my by (auto simp: distance_zero_iff)
  }
qed

theorem follower_converges_never_arrives_witness:
  "distance_to_target ((animate ^^ Suc 1)
      \<lparr>mouseX = 300, mouseY = 200, currentX = 0, currentY = 0, animating = True,
       hoverContainer = \<lparr>style_left = Text [], style_top = Text [], classList = []\<rparr>,
       hoverImg_src = [], raf_pending = 0\<rparr>)
   < distance_to_target ((animate ^^ 1)
      \<lparr>mouseX = 300, mouseY = 200, currentX = 0, currentY = 0, animating = True,
       hoverContainer = \<lparr>style_left = Text [], style_top = Text [], classList = []\<rparr>,
       hoverImg_src = [], raf_pending = 0\<rparr>)
   \<and> currentX ((animate ^^ 1)
      \<lparr>mouseX = 300, mouseY = 200, currentX = 0, currentY = 0, animating = True,
       hoverContainer = \<lparr>style_left = Text [], style_top = Text [], classList = []\<rparr>,
       hoverImg_src = [], raf_pending = 0\<rparr>) = 30"
  using follower_converges_never_arrives
    [of "\<lparr>mouseX = 300, mouseY = 200, currentX = 0, currentY = 0, animating = True,
       hoverContainer = \<lparr>style_left = Text [], style_top = Text [], classList = []\<rparr>,
       hoverImg_src = [], raf_pending = 0\<rparr>" 1]
  by (simp add: animate_def Let_def)

text \<open>
  C5. With the loop active, the target at (300, 200) and the current position at (0, 0),
  one tick moves the current position to (30, 20) and a second tick to (57, 38); the
  preview's \<open>left\<close> and \<open>top\<close> are written accordingly.
\<close>

theorem animate_two_ticks:
  "currentX (animate (s\<lparr>mouseX := 300, mouseY := 200, currentX := 0, currentY := 0, animating := True\<rparr>)) = 30
 \<and> currentY (animate (s\<lparr>mouseX := 300, mouseY := 200, currentX := 0, currentY := 0, animating := True\<rparr>)) = 20
 \<and> currentX (animate (animate (s\<lparr>mouseX := 300, mouseY := 200, currentX := 0, currentY := 0, animating := True\<rparr>))) = 57
 \<and> currentY (animate (animate (s\<lparr>mouseX := 300, mouseY := 200, currentX := 0, currentY := 0, animating := True\<rparr>))) = 38
 \<and> style_left (hoverContainer (animate (animate (s\<lparr>mouseX := 300, mouseY := 200, currentX := 0, currentY := 0, animating := True\<rparr>)))) = Px 57
 \<and> style_top (hoverContainer (animate (animate (s\<lparr>mouseX := 300, mouseY := 200, currentX := 0, currentY := 0, animating := True\<rparr>)))) = Px 38"
  by (simp add: animate_def Let_def)

section \<open>Theorems: entering and leaving a work row\<close>

text \<open>
  C8. Entering a work row that has no \<open>data-img\<close> attribute changes nothing: the image
  source, the preview and the loop stay as they were, and the handler returns normally.
\<close>

theorem enter_without_data_img:
  "row_mouseenter None s = s \<and> step (MouseEnter None) s = s"
  by (simp add: row_mouseenter_def)

lemma animate_inactive: "\<not> animating s \<Longrightarrow> animate s = s"
  by (simp add: animate_def)

lemma animate_funpow_inactive: "\<not> animating s \<Longrightarrow> (animate ^^ n) s = s"
  by (induction n) (simp_all add: animate_inactive)

lemma frame_inactive: "\<not> animating s \<Longrightarrow> frame s = s\<lparr>raf_pending := 0\<rparr>"
  by (simp add: frame_def animate_funpow_inactive)

lemma step_inactive:
  assumes "\<not> animating s" and "\<not> activates e"
  shows "\<not> animating (step e s)"
    and "currentX (step e s) = currentX s"
    and "currentY (step e s) = currentY s"
    and "style_left (hoverContainer (step e s)) = style_left (hoverContainer s)"
    and "style_top (hoverContainer (step e s)) = style_top (hoverContainer s)"
    and "raf_pending (step e s) \<le> raf_pending s"
    and "e = Frame \<Longrightarrow> raf_pending (step e s) = 0"
  using assms
  by (cases e; simp add: row_mouseenter_def row_mousemove_def row_mouseleave_def
      frame_inactive truthy_def split: option.splits)+

lemma run_inactive:
  assumes "\<not> animating s" and "\<forall>e\<in>set evs. \<not> activates e"
  shows "\<not> animating (run evs s)
       \<and> currentX (run evs s) = currentX s
       \<and> currentY (run evs s) = currentY s
       \<and> style_left (hoverContainer (run evs s)) = style_left (hoverContainer s)
       \<and> style_top (hoverContainer (run evs s)) = style_top (hoverContainer s)
       \<and> raf_pending (run evs s) \<le> raf_pending s
       \<and> (Frame \<in> set evs \<longrightarrow> raf_pending (run evs s) = 0)"
  using assms
proof (induction evs arbitrary: s)
  case Nil
  then show ?case by (simp add: run_def)
next
  case (Cons e evs)
  have ne: "\<not> activates e" and rest: "\<forall>e\<in>set evs. \<not> activates e"
    using Cons.prems(2) by simp_all
  note st = step_inactive [OF Cons.prems(1) ne]
  have r: "run (e # evs) s = run evs (step e s)" by (simp add: run_def)
  from Cons.IH [OF st(1) rest] st show ?case
    unfolding r by auto
qed

lemma leave_inactive:
  "\<not> animating (row_mouseleave s)"
  "currentX (row_mouseleave s) = currentX s"
  "currentY (row_mouseleave s) = currentY s"
  "mouseX (row_mouseleave s) = mouseX s"
  "mouseY (row_mouseleave s) = mouseY s"
  "style_left (hoverContainer (row_mouseleave s)) = style_left (hoverContainer s)"
  "style_top (hoverContainer (row_mouseleave s)) = style_top (hoverContainer s)"
  "raf_pending (row_mouseleave s) = raf_pending s"
  by (simp_all add: row_mouseleave_def)

text \<open>
  While the flag stays off the loop does end: after a pointer-leave, and as long as no row
  with a non-empty \<open>data-img\<close> is entered, the current position and the preview's
  \<open>left\<close> and \<open>top\<close> stay as they were at the leave, whatever pointer-moves, frames
  and enters of rows without image follow. The first frame runs every pending callback
  without effect and leaves none pending.
\<close>

lemma inactive_loop_stops:
  assumes "\<forall>e\<in>set evs. \<not> activates e"
  shows "\<not> animating (run evs (row_mouseleave s))
       \<and> currentX (run evs (row_mouseleave s)) = currentX s
       \<and> currentY (run evs (row_mouseleave s)) = currentY s
       \<and> style_left (hoverContainer (run evs (row_mouseleave s))) = style_left (hoverContainer s)
       \<and> style_top (hoverContainer (run evs (row_mouseleave s))) = style_top (hoverContainer s)
       \<and> frame (row_mouseleave s) = (row_mouseleave s)\<lparr>raf_pending := 0\<rparr>
       \<and> (Frame \<in> set evs \<longrightarrow> raf_pending (run evs (row_mouseleave s)) = 0)"
  using run_inactive [OF leave_inactive(1) assms, of s] frame_inactive [OF leave_inactive(1), of s]
  by (simp add: leave_inactive)

text \<open>
  C6. The claim: once a pointer-leave has cleared the flag, every frame callback
  requested before that finds the flag off, moves nothing and requests no further frame,
  so no loop survives a deactivation. The code misses this when a row is entered again
  before the next frame, as happens when the pointer goes from one row to the next. The
  first enter requests a frame; the leave clears the flag and leaves that request
  pending; the second enter sets the flag again and requests another frame. The frame
  then runs both callbacks, the one requested before the deactivation too: the position
  moves by two ticks (from 57 to 103.17, not to 81.3) and two callbacks are pending
  afterwards. Each further leave and enter within a frame adds a loop; with a frame
  between leave and enter there is one.
\<close>

theorem stale_callback_survives_reentry:
  "\<not> animating (run [MouseEnter (Some ''a.jpg''), MouseLeave]
       \<lparr>mouseX = 300, mouseY = 200, currentX = 0, currentY = 0, animating = False,
        hoverContainer = \<lparr>style_left = Text [], style_top = Text [], classList = []\<rparr>,
        hoverImg_src = [], raf_pending = 0\<rparr>)
 \<and> raf_pending (run [MouseEnter (Some ''a.jpg''), MouseLeave]
       \<lparr>mouseX = 300, mouseY = 200, currentX = 0, currentY = 0, animating = False,
        hoverContainer = \<lparr>style_left = Text [], style_top = Text [], classList = []\<rparr>,
        hoverImg_src = [], raf_pending = 0\<rparr>) = 1
 \<and> currentX (run [MouseEnter (Some ''a.jpg''), MouseLeave, MouseEnter (Some ''b.jpg'')]
       \<lparr>mouseX = 300, mouseY = 200, currentX = 0, currentY = 0, animating = False,
        hoverContainer = \<lparr>style_left = Text [], style_top = Text [], classList = []\<rparr>,
        hoverImg_src = [], raf_pending = 0\<rparr>) = 57
 \<and> raf_pending (run [MouseEnter (Some ''a.jpg''), MouseLeave, MouseEnter (Some ''b.jpg'')]
       \<lparr>mouseX = 300, mouseY = 200, currentX = 0, currentY = 0, animating = False,
        hoverContainer = \<lparr>style_left = Text [], style_top = Text [], classList = []\<rparr>,
        hoverImg_src = [], raf_pending = 0\<rparr>) = 2
 \<and> currentX (run [MouseEnter (Some ''a.jpg''), MouseLeave, MouseEnter (Some ''b.jpg''), Frame]
       \<lparr>mouseX = 300, mouseY = 200, currentX = 0, currentY = 0, animating = False,
        hoverContainer = \<lparr>style_left = Text [], style_top = Text [], classList = []\<rparr>,
        hoverImg_src = [], raf_pending = 0\<rparr>) = 103.17
 \<and> raf_pending (run [MouseEnter (Some ''a.jpg''), MouseLeave, MouseEnter (Some ''b.jpg''), Frame]
       \<lparr>mouseX = 300, mouseY = 200, currentX = 0, currentY = 0, animating = False,
        hoverContainer = \<lparr>style_left = Text [], style_top = Text [], classList = []\<rparr>,
        hoverImg_src = [], raf_pending = 0\<rparr>) = 2
 \<and> raf_pending (run [MouseEnter (Some ''a.jpg''), MouseLeave, MouseEnter (Some ''b.jpg''), MouseLeave, MouseEnter (Some ''c.jpg'')]
       \<lparr>mouseX = 300, mouseY = 200, currentX = 0, currentY = 0, animating = False,
        hoverContainer = \<lparr>style_left = Text [], style_top = Text [], classList = []\<rparr>,
        hoverImg_src = [], raf_pending = 0\<rparr>) = 3
 \<and> raf_pending (run [MouseEnter (Some ''a.jpg''), MouseLeave, Frame, MouseEnter (Some ''b.jpg'')]
       \<lparr>mouseX = 300, mouseY = 200, currentX = 0, currentY = 0, animating = False,
        hoverContainer = \<lparr>style_left = Text [], style_top = Text [], classList = []\<rparr>,
        hoverImg_src = [], raf_pending = 0\<rparr>) = 1"
  by (simp add: run_def row_mouseenter_def row_mouseleave_def frame_def animate_def Let_def
      numeral_2_eq_2)

lemma run_append: "run (xs @ ys) s = run ys (run xs s)"
  by (simp add: run_def)

lemma enter_interpolates:
  assumes "img \<noteq> []"
  shows "currentX (row_mouseenter (Some img) s) = currentX s + (mouseX s - currentX s) * 0.1"
    and "currentY (row_mouseenter (Some img) s) = currentY s + (mouseY s - currentY s) * 0.1"
  using assms by (simp_all add: row_mouseenter_def animate_def Let_def)

text \<open>
  C10. Initialisation, when the preview, its image and at least one row exist, yields the
  follower with its current position at (0, 0); nothing moves it before the first
  activation, whose first update therefore starts from (0, 0). Afterwards the position
  is not reset: a pointer-leave keeps it, and so does everything that happens while the
  loop is off. When a row with an image is entered again, the first update of the new
  activation starts from the position where the follower stopped and moves a tenth of
  the way from there to the latest target.
\<close>

theorem current_position_kept:
  assumes "\<forall>e\<in>set evs. \<not> activates e" and "img \<noteq> []"
  shows "(\<exists>s0. initWorkHover (Some c) (Some i) (Suc n) = Some s0
            \<and> currentX s0 = 0 \<and> currentY s0 = 0 \<and> \<not> animating s0
            \<and> currentX (run evs s0) = 0 \<and> currentY (run evs s0) = 0
            \<and> currentX (run (evs @ [MouseEnter (Some img)]) s0) = mouseX (run evs s0) * 0.1
            \<and> currentY (run (evs @ [MouseEnter (Some img)]) s0) = mouseY (run evs s0) * 0.1)
       \<and> (\<forall>c' i' n' s0. initWorkHover c' i' n' = Some s0 \<longrightarrow> currentX s0 = 0 \<and> currentY s0 = 0)
       \<and> currentX (run (MouseLeave # evs) s) = currentX s
       \<and> currentY (run (MouseLeave # evs) s) = currentY s
       \<and> currentX (run (MouseLeave # evs @ [MouseEnter (Some img)]) s) =
           currentX s + (mouseX (run (MouseLeave # evs) s) - currentX s) * 0.1
       \<and> currentY (run (MouseLeave # evs @ [MouseEnter (Some img)]) s) =
           currentY s + (mouseY (run (MouseLeave # evs) s) - currentY s) * 0.1"
proof -
  let ?s0 = "\<lparr>mouseX = 0, mouseY = 0, currentX = 0, currentY = 0, animating = False,
              hoverContainer = c, hoverImg_src = i, raf_pending = 0\<rparr>"
  have made: "initWorkHover (Some c) (Some i) (Suc n) = Some ?s0"
    by (simp add: initWorkHover_def)
  have off: "\<not> animating ?s0" by simp
  have idle: "currentX (run evs ?s0) = 0" "currentY (run evs ?s0) = 0"
    using run_inactive [OF off assms(1)] by simp_all
  have first: "run (evs @ [MouseEnter (Some img)]) ?s0 = row_mouseenter (Some img) (run evs ?s0)"
    using run_append [of evs "[MouseEnter (Some img)]" ?s0] by (simp add: run_def)
  have start: "currentX (run (evs @ [MouseEnter (Some img)]) ?s0) = mouseX (run evs ?s0) * 0.1"
              "currentY (run (evs @ [MouseEnter (Some img)]) ?s0) = mouseY (run evs ?s0) * 0.1"
    using enter_interpolates [OF assms(2), of "run evs ?s0"] idle
    by (simp_all add: first)
  have page: "\<exists>s0. initWorkHover (Some c) (Some i) (Suc n) = Some s0
            \<and> currentX s0 = 0 \<and> currentY s0 = 0 \<and> \<not> animating s0
            \<and> currentX (run evs s0) = 0 \<and> currentY (run evs s0) = 0
            \<and> currentX (run (evs @ [MouseEnter (Some img)]) s0) = mouseX (run evs s0) * 0.1
            \<and> currentY (run (evs @ [MouseEnter (Some img)]) s0) = mouseY (run evs s0) * 0.1"
  proof (intro exI conjI)
    show "initWorkHover (Some c) (Some i) (Suc n) = Some ?s0" by (rule made)
  qed (use idle start in simp_all)
  have init: "\<forall>c' i' n' s0. initWorkHover c' i' n' = Some s0 \<longrightarrow> currentX s0 = 0 \<and> currentY s0 = 0"
    by (auto simp: initWorkHover_def split: option.splits if_splits)
  have r: "run (MouseLeave # evs) s = run evs (row_mouseleave s)"
    by (simp add: run_def)
  have kept: "currentX (run (MouseLeave # evs) s) = currentX s"
             "currentY (run (MouseLeave # evs) s) = currentY s"
    using run_inactive [OF leave_inactive(1) assms(1), of s]
    by (simp_all add: r leave_inactive)
  have e: "run (MouseLeave # evs @ [MouseEnter (Some img)]) s =
           row_mouseenter (Some img) (run (MouseLeave # evs) s)"
    using run_append [of "MouseLeave # evs" "[MouseEnter (Some img)]" s]
    by (simp add: run_def)
  have again: "currentX (run (MouseLeave # evs @ [MouseEnter (Some img)]) s) =
           currentX s + (mouseX (run (MouseLeave # evs) s) - currentX s) * 0.1"
       "currentY (run (MouseLeave # evs @ [MouseEnter (Some img)]) s) =
           currentY s + (mouseY (run (MouseLeave # evs) s) - currentY s) * 0.1"
    using kept enter_interpolates [OF assms(2), of "run (MouseLeave # evs) s"]
    by (simp_all add: e)
  from page init kept again show ?thesis by blast
qed

theorem current_position_kept_witness:
  "(\<exists>s0. initWorkHover (Some \<lparr>style_left = Text [], style_top = Text [], classList = []\<rparr>)
            (Some ''placeholder.jpg'') (Suc 2) = Some s0
        \<and> currentX s0 = 0 \<and> currentY s0 = 0
        \<and> currentX (run [MouseMove \<lparr>clientX = 1175, clientY = 700\<rparr>, Frame] s0) = 0
        \<and> currentX (run ([MouseMove \<lparr>clientX = 1175, clientY = 700\<rparr>, Frame]
                          @ [MouseEnter (Some ''b.jpg'')]) s0) = 100)
 \<and> currentX (run (MouseLeave # [MouseMove \<lparr>clientX = 1175, clientY = 700\<rparr>, Frame] @ [MouseEnter (Some ''b.jpg'')])
      \<lparr>mouseX = 300, mouseY = 200, currentX = 30, currentY = 20, animating = True,
       hoverContainer = \<lparr>style_left = Px 30, style_top = Px 20, classList = [''active'']\<rparr>,
       hoverImg_src = ''a.jpg'', raf_pending = 1\<rparr>) = 127
 \<and> currentY (run (MouseLeave # [MouseMove \<lparr>clientX = 1175, clientY = 700\<rparr>, Frame] @ [MouseEnter (Some ''b.jpg'')])
      \<lparr>mouseX = 300, mouseY = 200, currentX = 30, currentY = 20, animating = True,
       hoverContainer = \<lparr>style_left = Px 30, style_top = Px 20, classList = [''active'']\<rparr>,
       hoverImg_src = ''a.jpg'', raf_pending = 1\<rparr>) = 68"
proof -
  let ?evs = "[MouseMove \<lparr>clientX = 1175, clientY = 700\<rparr>, Frame]"
  let ?s = "\<lparr>mouseX = 300, mouseY = 200, currentX = 30, currentY = 20, animating = True,
       hoverContainer = \<lparr>style_left = Px 30, style_top = Px 20, classList = [''active'']\<rparr>,
       hoverImg_src = ''a.jpg'', raf_pending = 1\<rparr>"
  have h: "\<forall>e\<in>set ?evs. \<not> activates e"
    by simp
  have i: "''b.jpg'' \<noteq> []" by simp
  have m: "mouseX (run (MouseLeave # ?evs) ?s) = 1000" "mouseY (run (MouseLeave # ?evs) ?s) = 500"
    by (simp_all add: run_def row_mouseleave_def row_mousemove_def frame_def animate_def)
  have m0: "\<And>s0. \<not> animating s0 \<Longrightarrow> mouseX (run ?evs s0) = 1000"
    by (simp add: run_def row_mousemove_def frame_def animate_funpow_inactive)
  note t = current_position_kept [OF h i,
      of "\<lparr>style_left = Text [], style_top = Text [], classList = []\<rparr>" "''placeholder.jpg''" 2 ?s]
  from t obtain s0 where s0:
    "initWorkHover (Some \<lparr>style_left = Text [], style_top = Text [], classList = []\<rparr>)
            (Some ''placeholder.jpg'') (Suc 2) = Some s0"
    "currentX s0 = 0" "currentY s0 = 0" "\<not> animating s0"
    "currentX (run ?evs s0) = 0"
    "currentX (run (?evs @ [MouseEnter (Some ''b.jpg'')]) s0) = mouseX (run ?evs s0) * 0.1"
    by blast
  have a: "currentX (run (?evs @ [MouseEnter (Some ''b.jpg'')]) s0) = 100"
    using s0(6) m0 [OF s0(4)] by simp
  have b: "currentX (run (MouseLeave # ?evs @ [MouseEnter (Some ''b.jpg'')]) ?s) = 127"
          "currentY (run (MouseLeave # ?evs @ [MouseEnter (Some ''b.jpg'')]) ?s) = 68"
    using t unfolding m by simp_all
  from s0(1,2,3,5) a b show ?thesis by blast
qed

end
